theory Spec2Isabelle
  imports Main
begin

section \<open>Exceptions, documents and the similarity index\<close>

text \<open>
  The application is a Streamlit script (\<^verbatim>\<open>app.py\<close>): every interaction runs the
  module from top to bottom. Python exceptions are values of type \<open>error\<close>;
  \<open>LibraryError msg\<close> stands for any exception raised inside a third-party call
  (language model, embedding, PDF reader, microphone), \<open>msg\<close> being \<^verbatim>\<open>str(e)\<close>; the
  two exceptions of the speech recogniser have constructors of their own because the Voice
  page catches them by class. All are subclasses of \<^verbatim>\<open>Exception\<close>.
\<close>

datatype error =
    TypeError string | StopIteration | LibraryError string
  | UnknownValueError | RequestError string

fun str_of :: "error \<Rightarrow> string" where
  "str_of (TypeError m) = m"
| "str_of StopIteration = []"
| "str_of (LibraryError m) = m"
| "str_of UnknownValueError = []"
| "str_of (RequestError m) = m"

record document =
  page_content :: string

text \<open>
  The FAISS index is an external collaborator: the model keeps only what the program asks
  of it, the similarity search behind \<^verbatim>\<open>as_retriever()\<close>.
\<close>

record FAISS =
  similarity_search :: "string \<Rightarrow> error + document list"

section \<open>The runnable pipeline of \<^verbatim>\<open>check_medicine_time\<close>\<close>

type_synonym ('a, 'b) runnable = "'a \<Rightarrow> error + 'b"

text \<open>\<^verbatim>\<open>a | b\<close>: run \<open>a\<close>, feed its output to \<open>b\<close>; an exception of either propagates.\<close>

definition pipe :: "('a, 'b) runnable \<Rightarrow> ('b, 'c) runnable \<Rightarrow> ('a, 'c) runnable" where
  "pipe a b x = (case a x of Inl e \<Rightarrow> Inl e | Inr y \<Rightarrow> b y)"

text \<open>A plain Python function used as a pipeline stage.\<close>

definition coerce_to_runnable :: "('a \<Rightarrow> 'b) \<Rightarrow> ('a, 'b) runnable" where
  "coerce_to_runnable f x = Inr (f x)"

definition RunnablePassthrough :: "('a, 'a) runnable" where
  "RunnablePassthrough x = Inr x"

text \<open>
  The dict literal \<^verbatim>\<open>{"context": ..., "current_time": ...}\<close> of the chain: both
  entries receive the input of the chain and their outputs fill the two variables of the
  prompt.
\<close>

record prompt_input =
  context_var :: string
  current_time_var :: string

definition RunnableParallel ::
  "('a, string) runnable \<Rightarrow> ('a, string) runnable \<Rightarrow> ('a, prompt_input) runnable" where
  "RunnableParallel c t x =
     (case c x of
        Inl e \<Rightarrow> Inl e
      | Inr cv \<Rightarrow>
          (case t x of
             Inl e \<Rightarrow> Inl e
           | Inr tv \<Rightarrow> Inr \<lparr>context_var = cv, current_time_var = tv\<rparr>))"

text \<open>Python's \<^verbatim>\<open>sep.join(parts)\<close>.\<close>

fun join :: "string \<Rightarrow> string list \<Rightarrow> string" where
  "join sep [] = []"
| "join sep [x] = x"
| "join sep (x # y # ys) = x @ sep @ join sep (y # ys)"

definition nl :: string where
  "nl = [CHR 0x0A]"

definition dq :: string where
  "dq = [CHR 0x22]"

definition format_docs :: "document list \<Rightarrow> string" where
  "format_docs docs = join (nl @ nl) (map page_content docs)"

definition as_retriever :: "FAISS \<Rightarrow> (string, document list) runnable" where
  "as_retriever vectorstore = similarity_search vectorstore"

definition prompt :: "prompt_input \<Rightarrow> string" where
  "prompt v =
     nl @ ''    Check if any medicine needs to be taken at '' @ current_time_var v @ ''.'' @ nl
     @ ''    If yes, create a reminder message. If no, respond with '' @ dq
     @ ''No medicines scheduled for now.'' @ dq @ nl
     @ ''    '' @ nl
     @ ''    Context: '' @ context_var v @ nl
     @ ''    ''"

text \<open>
  Everything outside the program that a run depends on. The fields are indexed by the
  number of reminder evaluations made so far in the run, so the clock, the hosted model and
  the speech engine may answer differently each time.
  \<^item> \<open>clock k\<close>: \<^verbatim>\<open>datetime.datetime.now().strftime("%I:%M %p")\<close>;
  \<^item> \<open>llm k\<close>: the hosted model followed by \<^verbatim>\<open>StrOutputParser\<close>, which may raise;
  \<^item> \<open>isBusy k\<close>: \<^verbatim>\<open>engine.isBusy()\<close>;
  \<^item> \<open>load_dotenv\<close>: what \<^verbatim>\<open>load_dotenv()\<close> makes of the process environment;
  \<^item> \<open>PdfReader\<close>, \<open>split_text\<close>, \<open>from_texts\<close>: the PDF reader (the text that
    \<^verbatim>\<open>extract_text()\<close> gives for each page), the text splitter with chunk size 1000 and
    overlap 200, and \<^verbatim>\<open>FAISS.from_texts\<close> with the fixed embedding model;
  \<^item> \<open>listen\<close>, \<open>recognize_google\<close>: the microphone capture (three seconds' timeout) and
    the hosted transcription.
\<close>

type_synonym environ = "string \<rightharpoonup> string"

record world =
  clock :: "nat \<Rightarrow> string"
  llm :: "nat \<Rightarrow> string \<Rightarrow> error + string"
  isBusy :: "nat \<Rightarrow> bool"
  load_dotenv :: "environ \<Rightarrow> environ"
  PdfReader :: "string \<Rightarrow> error + string list"
  split_text :: "string \<Rightarrow> string list"
  from_texts :: "string list \<Rightarrow> error + FAISS"
  listen :: "error + string"
  recognize_google :: "string \<Rightarrow> error + string"

definition chain :: "world \<Rightarrow> nat \<Rightarrow> FAISS \<Rightarrow> (string, string) runnable" where
  "chain w k vectorstore =
     pipe (pipe (RunnableParallel
                   (pipe (as_retriever vectorstore) (coerce_to_runnable format_docs))
                   RunnablePassthrough)
                (coerce_to_runnable prompt))
          (llm w k)"

definition check_medicine_time :: "world \<Rightarrow> nat \<Rightarrow> FAISS \<Rightarrow> error + string" where
  "check_medicine_time w k vectorstore =
     (let current_time = clock w k in chain w k vectorstore current_time)"

section \<open>The reminder evaluator: query and context\<close>

text \<open>
  The statement of the specification, for comparison: the retriever is asked the fixed
  generic query and the joined text of its answer is the context of the prompt.
\<close>

definition generic_query :: string where
  "generic_query = ''what medicine context is relevant''"

definition spec_evaluate :: "world \<Rightarrow> nat \<Rightarrow> FAISS \<Rightarrow> error + string" where
  "spec_evaluate w k vectorstore =
     (case similarity_search vectorstore generic_query of
        Inl e \<Rightarrow> Inl e
      | Inr docs \<Rightarrow>
          llm w k (prompt \<lparr>context_var = format_docs docs, current_time_var = clock w k\<rparr>))"

text \<open>
  A small index of two chunks of a prescription, whose best match depends on the query,
  and a world whose model answers with the prompt it was sent.
\<close>

definition morning_chunk :: document where
  "morning_chunk = \<lparr>page_content = ''Aspirin 1 tablet at 09:00 AM''\<rparr>"

definition night_chunk :: document where
  "night_chunk = \<lparr>page_content = ''Metformin 500mg at 09:00 PM''\<rparr>"

definition demo_index :: FAISS where
  "demo_index =
     \<lparr>similarity_search =
        (\<lambda>q. if q = ''09:00 AM'' then Inr [morning_chunk] else Inr [night_chunk])\<rparr>"

definition echo_world :: world where
  "echo_world =
     \<lparr>clock = (\<lambda>k. ''09:00 AM''),
      llm = (\<lambda>k p. Inr p),
      isBusy = (\<lambda>k. False),
      load_dotenv = (\<lambda>env. env),
      PdfReader = (\<lambda>pdf. Inr [pdf]),
      split_text = (\<lambda>t. if t = [] then [] else [t]),
      from_texts = (\<lambda>ts. if ts = [] then Inl (LibraryError ''list index out of range'')
                            else Inr demo_index),
      listen = Inr ''audio'',
      recognize_google = (\<lambda>a. Inr ''take my medicine'')\<rparr>"

section \<open>The stores\<close>

text \<open>
  A schedule entry is the dict that the Schedule page builds from its form: name, the three
  time-of-day flags and the dosage.
\<close>

record medicine_schedule =
  medicine_name :: string
  morning :: bool
  afternoon :: bool
  night :: bool
  dosage :: string

text \<open>
  Modelled from the spec: the module \<^verbatim>\<open>db\<close> that \<^verbatim>\<open>app.py\<close> imports (the credential
  store and the schedule store) is not among the sources. The tables and operations below
  follow sections 3, 4.1 and 4.2 of the specification. A user row is
  \<open>(id, username, password)\<close>: the login handler keeps \<^verbatim>\<open>user[1]\<close> as the owner name of
  every later store call. A reminder row is \<open>(id, owner, medicine, time, dosage)\<close>, as the
  reminder list reads it (indices 0, 2, 3 and 4). An owner is optional because the
  session's user is \<^verbatim>\<open>None\<close> until a login succeeds.
\<close>

type_synonym user_row = "nat \<times> string \<times> string"

type_synonym reminder_row = "nat \<times> string option \<times> string \<times> string \<times> string"

record database =
  users :: "user_row list"
  schedules :: "(string option \<times> medicine_schedule) list"
  reminders :: "reminder_row list"

text \<open>Modelled from the spec: the username of a user record.\<close>

definition row_username :: "user_row \<Rightarrow> string" where
  "row_username row = fst (snd row)"

text \<open>Modelled from the spec: the stored password of a user record (no hashing).\<close>

definition row_password :: "user_row \<Rightarrow> string" where
  "row_password row = snd (snd row)"

text \<open>Modelled from the spec: register succeeds and persists the pair unless the
  username already exists.\<close>

definition register_user :: "database \<Rightarrow> string \<Rightarrow> string \<Rightarrow> bool \<times> database" where
  "register_user d name pw =
     (if name \<in> set (map row_username (users d)) then (False, d)
      else (True, d\<lparr>users := users d @ [(length (users d), name, pw)]\<rparr>))"

text \<open>Modelled from the spec: login succeeds only on exact match of both fields and
  returns nothing on mismatch.\<close>

definition login_user :: "database \<Rightarrow> string \<Rightarrow> string \<Rightarrow> user_row option" where
  "login_user d name pw =
     find (\<lambda>row. row_username row = name \<and> row_password row = pw) (users d)"

text \<open>Modelled from the spec: \<^verbatim>\<open>addSchedule(owner, entry)\<close>; the schedule store keeps
  insertion order and enforces no uniqueness.\<close>

definition store_medicine_schedule ::
  "database \<Rightarrow> string option \<Rightarrow> medicine_schedule \<Rightarrow> database" where
  "store_medicine_schedule d owner entry = d\<lparr>schedules := schedules d @ [(owner, entry)]\<rparr>"

text \<open>Modelled from the spec: \<^verbatim>\<open>listSchedule(owner)\<close>, the owner's entries as an ordered
  sequence; no owner, no entries.\<close>

definition get_medicine_schedule :: "database \<Rightarrow> string option \<Rightarrow> medicine_schedule list" where
  "get_medicine_schedule d owner =
     (if owner = None then []
      else map snd (filter (\<lambda>r. fst r = owner) (schedules d)))"

text \<open>Modelled from the spec: \<^verbatim>\<open>updateSchedule(owner, name, newEntry)\<close>, keyed on the
  medicine name.\<close>

definition update_medicine_schedule ::
  "database \<Rightarrow> string option \<Rightarrow> string \<Rightarrow> medicine_schedule \<Rightarrow> database" where
  "update_medicine_schedule d owner name entry =
     d\<lparr>schedules :=
         map (\<lambda>r. if owner \<noteq> None \<and> fst r = owner \<and> medicine_name (snd r) = name
                   then (fst r, entry) else r)
             (schedules d)\<rparr>"

text \<open>Modelled from the spec: \<^verbatim>\<open>deleteSchedule(owner, name)\<close> removes all entries with that
  name for that user.\<close>

definition delete_medicine_schedule :: "database \<Rightarrow> string option \<Rightarrow> string \<Rightarrow> database" where
  "delete_medicine_schedule d owner name =
     d\<lparr>schedules :=
         filter (\<lambda>r. \<not> (owner \<noteq> None \<and> fst r = owner \<and> medicine_name (snd r) = name))
                (schedules d)\<rparr>"

text \<open>Modelled from the spec: \<^verbatim>\<open>addReminder(owner, medicineName, time, dosage)\<close>.\<close>

definition store_reminder ::
  "database \<Rightarrow> string option \<Rightarrow> string option \<Rightarrow> string \<Rightarrow> string \<Rightarrow> database" where
  "store_reminder d owner medicine time_of_day dose =
     d\<lparr>reminders :=
         reminders d @ [(length (reminders d), owner, (case medicine of None \<Rightarrow> [] | Some m \<Rightarrow> m),
                         time_of_day, dose)]\<rparr>"

text \<open>Modelled from the spec: \<^verbatim>\<open>listReminders(owner)\<close>.\<close>

definition get_reminders :: "database \<Rightarrow> string option \<Rightarrow> reminder_row list" where
  "get_reminders d owner =
     (if owner = None then []
      else filter (\<lambda>r. fst (snd r) = owner) (reminders d))"

text \<open>Modelled from the spec: \<^verbatim>\<open>updateReminder(owner, medicineName, newTime, newDosage)\<close>,
  keyed on the medicine name.\<close>

definition update_reminder ::
  "database \<Rightarrow> string option \<Rightarrow> string \<Rightarrow> string \<Rightarrow> string \<Rightarrow> database" where
  "update_reminder d owner medicine time_of_day dose =
     d\<lparr>reminders :=
         map (\<lambda>r. case r of (i, ow, m, t, ds) \<Rightarrow>
                if owner \<noteq> None \<and> ow = owner \<and> m = medicine then (i, ow, m, time_of_day, dose)
                else r)
             (reminders d)\<rparr>"

text \<open>Modelled from the spec: \<^verbatim>\<open>deleteReminder(owner, medicineName)\<close>.\<close>

definition delete_reminder :: "database \<Rightarrow> string option \<Rightarrow> string \<Rightarrow> database" where
  "delete_reminder d owner medicine =
     d\<lparr>reminders :=
         filter (\<lambda>r. case r of (i, ow, m, t, ds) \<Rightarrow>
                   \<not> (owner \<noteq> None \<and> ow = owner \<and> m = medicine))
                (reminders d)\<rparr>"

section \<open>Session state, widgets and the state of a run\<close>

text \<open>
  \<^verbatim>\<open>st.session_state\<close> after the module has initialised it. The key
  \<^verbatim>\<open>vectorstore\<close> is absent until the Upload page sets it to \<^verbatim>\<open>None\<close>; it is only
  read after that, so absent and \<^verbatim>\<open>None\<close> are one value here.
\<close>

record session =
  logged_in :: bool
  user :: "string option"
  vectorstore :: "FAISS option"

text \<open>
  The module-level variable \<^verbatim>\<open>page\<close>: one of the seven menu entries, or a page object of
  the PDF after the extraction loop of the Upload page, which reuses the name.
\<close>

datatype page =
    Home | Register | Login | Dashboard | Schedule_Reminders | Upload | Voice_Recognition
  | PageObject string

text \<open>
  What a run shows and what it calls, in order. \<open>Widget\<close> is an input widget or a form,
  by its label or key; \<open>StoreCall\<close> a call into \<^verbatim>\<open>db\<close>; \<open>Evaluate k\<close> the \<open>k\<close>-th call of
  \<^verbatim>\<open>check_medicine_time\<close>; \<open>Busy b\<close> a call of \<^verbatim>\<open>engine.isBusy()\<close> that answered
  \<open>b\<close>; \<open>Say\<close> and \<open>RunAndWait\<close> the speech engine; \<open>Sleep\<close> is \<^verbatim>\<open>time.sleep\<close>.
\<close>

datatype event =
    Markdown string | Header string | Subheader string | Write string
  | Warning string | Error string | Success string | Info string
  | Widget string | Metric string nat | PlotlyChart "(string \<times> string \<times> string) list"
  | StoreCall string | Evaluate nat
  | Busy bool | Say string | RunAndWait | Sleep nat
  | Listen | WriteFile string string

text \<open>The values the widgets return in one run of the script.\<close>

record inputs =
  menu :: page
  login_username :: string
  login_password :: string
  login_button :: bool
  username :: string
  password :: string
  confirm_password :: string
  register_button :: bool
  medicine_form :: medicine_schedule
  submitted :: bool
  edit_form :: "string \<Rightarrow> medicine_schedule"
  update_submitted :: "string \<Rightarrow> bool"
  delete_submitted :: "string \<Rightarrow> bool"
  reminder_choice :: nat
  reminder_time :: string
  reminder_submitted :: bool
  edit_reminder_time :: "nat \<Rightarrow> string"
  edit_dosage :: "nat \<Rightarrow> string"
  update_reminder_submitted :: "nat \<Rightarrow> bool"
  delete_reminder_submitted :: "nat \<Rightarrow> bool"
  pdf :: "string option"
  check_button :: bool
  auto_check :: bool
  start_recording :: bool
  set_reminder_button :: bool

record run_state =
  db :: database
  ss :: session
  out :: "event list"
  calls :: nat
  page_var :: page

text \<open>
  How a piece of the script ends: it returns, an exception leaves it, or (for the
  automatic-checking loop, which is given a number of iterations to run) it is still
  running.
\<close>

datatype status = Returned | Raised error | Running

definition emit :: "event list \<Rightarrow> run_state \<Rightarrow> run_state" where
  "emit es s = s\<lparr>out := out s @ es\<rparr>"

definition yes_no :: "bool \<Rightarrow> string" where
  "yes_no b = (if b then ''Yes'' else ''No'')"

section \<open>Home, Login and Register\<close>

definition home_page :: "run_state \<Rightarrow> status \<times> run_state" where
  "home_page s =
     (Returned,
      emit [Markdown ''Welcome to Your Medicine Reminder App!'',
            Subheader ''Project Overview'', Write ''overview'', Markdown ''style'',
            Subheader ''Key Features'', Markdown ''features'',
            Subheader ''Benefits of Using This App'', Markdown ''benefits''] s)"

definition login_page :: "inputs \<Rightarrow> run_state \<Rightarrow> status \<times> run_state" where
  "login_page inp s0 =
     (let s1 = emit [Header ''User Login'', Widget ''Username'', Widget ''Password'',
                     Widget ''Login''] s0
      in if login_button inp then
           (let s2 = emit [StoreCall ''login_user''] s1
            in case login_user (db s2) (login_username inp) (login_password inp) of
                 Some row \<Rightarrow>
                   (Returned,
                    emit [Success (''Welcome '' @ login_username inp @ ''!'')]
                      (s2\<lparr>ss := (ss s2)\<lparr>logged_in := True, user := Some (row_username row)\<rparr>,
                          page_var := Home\<rparr>))
               | None \<Rightarrow> (Returned, emit [Error ''Invalid username or password''] s2))
         else (Returned, s1))"

definition register_page :: "inputs \<Rightarrow> run_state \<Rightarrow> status \<times> run_state" where
  "register_page inp s0 =
     (let s1 = emit [Header ''User Registration'', Widget ''Enter a username'',
                     Widget ''Enter a password'', Widget ''Confirm password'',
                     Widget ''Register''] s0
      in if register_button inp then
           (if password inp \<noteq> confirm_password inp then
              (Returned, emit [Error ''Passwords do not match!''] s1)
            else
              (let s2 = emit [StoreCall ''register_user''] s1;
                   r = register_user (db s2) (username inp) (password inp)
               in if fst r then
                    (Returned,
                     emit [Success (''User '' @ username inp @ '' registered successfully!'')]
                       (s2\<lparr>db := snd r\<rparr>))
                  else (Returned, emit [Error ''Username already exists!''] (s2\<lparr>db := snd r\<rparr>))))
         else (Returned, s1))"

section \<open>Dashboard\<close>

text \<open>
  Style sheets and markup are one \<open>Markdown\<close> event each. The entries this program stores
  have no \<^verbatim>\<open>frequency\<close> key, so the dashboard's optional suffix for it is not drawn.
\<close>

definition sq :: string where
  "sq = [CHR 0x27]"

definition chart_rows :: "medicine_schedule \<Rightarrow> (string \<times> string \<times> string) list" where
  "chart_rows item =
     (if morning item then [(medicine_name item, ''Morning'', dosage item)] else [])
     @ (if afternoon item then [(medicine_name item, ''Afternoon'', dosage item)] else [])
     @ (if night item then [(medicine_name item, ''Night'', dosage item)] else [])"

definition no_schedule_yet :: string where
  "no_schedule_yet =
     ''No medication schedule available yet. Add some medications to see insights.''"

definition dashboard_body :: "run_state \<Rightarrow> status \<times> run_state" where
  "dashboard_body s0 =
     (let s1 = emit [Markdown ''Welcome to Your Medicine Reminder Dashboard!'',
                     Subheader ''Quick Overview'', Markdown ''style'',
                     StoreCall ''get_medicine_schedule'', StoreCall ''get_reminders''] s0;
          total_medicines = length (get_medicine_schedule (db s1) (user (ss s1)));
          active_reminders = length (get_reminders (db s1) (user (ss s1)));
          s2 = emit [Metric ''Total Medicines'' total_medicines,
                     Metric ''Active Reminders'' active_reminders,
                     Subheader ''Medication Schedule Overview'',
                     StoreCall ''get_medicine_schedule''] s1;
          schedule = get_medicine_schedule (db s2) (user (ss s2));
          s3 = (if schedule \<noteq> [] then emit [PlotlyChart (concat (map chart_rows schedule))] s2
                else emit [Info no_schedule_yet] s2);
          s4 = emit [Write ''**Explore your reminders and medication schedule to stay on top of your health!**''] s3
      in if schedule = [] then (Returned, emit [Info no_schedule_yet] s4)
         else
           (Returned,
            emit ([Subheader ''Your Medication Schedule'',
                   Write (''Here'' @ sq @ ''s your current medication schedule:'')]
                  @ map (\<lambda>item. Write (''- **'' @ medicine_name item @ ''**: '' @ dosage item
                                            @ '' units'')) schedule
                  @ [Subheader ''Missed Reminders'',
                     Write ''This feature is yet to be implemented.'',
                     Subheader ''Emergency Contact Information'',
                     Write ''This feature is yet to be implemented.'']) s4))"

definition dashboard_page :: "run_state \<Rightarrow> status \<times> run_state" where
  "dashboard_page s =
     (if \<not> logged_in (ss s) then
        (Returned,
         (emit [Warning ''You need to log in to access the Home page.''] s)\<lparr>page_var := Login\<rparr>)
      else dashboard_body s)"

section \<open>Schedule and Reminders\<close>

text \<open>\<^verbatim>\<open>st.selectbox\<close>: the chosen option, the first one by default, \<^verbatim>\<open>None\<close> when there
  are no options.\<close>

definition selectbox :: "string list \<Rightarrow> nat \<Rightarrow> string option" where
  "selectbox options choice =
     (if options = [] then None
      else Some (options ! (if choice < length options then choice else 0)))"

text \<open>\<^verbatim>\<open>next(item['dosage'] for item in schedule if item['medicine_name'] == name)\<close>:
  the dosage of the first entry with that name; an exhausted generator raises
  \<^verbatim>\<open>StopIteration\<close>.\<close>

fun next_dosage :: "medicine_schedule list \<Rightarrow> string option \<Rightarrow> error + string" where
  "next_dosage [] name = Inl StopIteration"
| "next_dosage (item # rest) name =
     (if Some (medicine_name item) = name then Inr (dosage item) else next_dosage rest name)"

definition quoted :: "string \<Rightarrow> string" where
  "quoted name = sq @ name @ sq"

definition add_medicine :: "inputs \<Rightarrow> run_state \<Rightarrow> run_state" where
  "add_medicine inp s0 =
     (let s1 = emit [Header ''Manage Medication Schedule and Reminders'',
                     Subheader ''Add Medication Schedule'', Widget ''medicine_form''] s0;
          f = medicine_form inp
      in if submitted inp then
           (if medicine_name f \<noteq> [] \<and> dosage f \<noteq> [] then
              emit [StoreCall ''store_medicine_schedule'',
                    Success (''Medicine '' @ quoted (medicine_name f)
                             @ '' schedule added successfully!'')]
                (s1\<lparr>db := store_medicine_schedule (db s1) (user (ss s1)) f\<rparr>)
            else emit [Error ''Please enter a valid medicine name and dosage.''] s1)
         else s1)"

definition schedule_item :: "inputs \<Rightarrow> run_state \<Rightarrow> medicine_schedule \<Rightarrow> run_state" where
  "schedule_item inp s0 item =
     (let name = medicine_name item;
          s1 = emit [Widget (''Medicine: '' @ name),
                     Write (''Morning: '' @ yes_no (morning item)),
                     Write (''Afternoon: '' @ yes_no (afternoon item)),
                     Write (''Night: '' @ yes_no (night item)),
                     Write (''Dosage: '' @ dosage item),
                     Widget (''edit_form_'' @ name)] s0;
          s2 = (if update_submitted inp name then
                  emit [StoreCall ''update_medicine_schedule'',
                        Success (''Medicine '' @ quoted name @ '' updated successfully!'')]
                    (s1\<lparr>db := update_medicine_schedule (db s1) (user (ss s1)) name
                                  (edit_form inp name)\<rparr>)
                else s1);
          s3 = emit [Widget (''delete_form_'' @ name)] s2
      in if delete_submitted inp name then
           emit [StoreCall ''delete_medicine_schedule'',
                 Success (''Medicine '' @ quoted name @ '' deleted successfully!'')]
             (s3\<lparr>db := delete_medicine_schedule (db s3) (user (ss s3)) name\<rparr>)
         else s3)"

definition reminder_item :: "inputs \<Rightarrow> run_state \<Rightarrow> reminder_row \<Rightarrow> run_state" where
  "reminder_item inp s0 reminder =
     (case reminder of (i, owner, medicine, time_of_day, dose) \<Rightarrow>
        (let s1 = emit [Widget (''Reminder: '' @ medicine @ '' at '' @ time_of_day
                                @ '' (Dosage: '' @ dose @ '')''),
                        Widget ''edit_reminder_form''] s0;
             s2 = (if update_reminder_submitted inp i then
                     emit [StoreCall ''update_reminder'',
                           Success (''Reminder for '' @ quoted medicine
                                    @ '' updated successfully!'')]
                       (s1\<lparr>db := update_reminder (db s1) (user (ss s1)) medicine
                                     (edit_reminder_time inp i) (edit_dosage inp i)\<rparr>)
                   else s1);
             s3 = emit [Widget ''delete_reminder_form''] s2
         in if delete_reminder_submitted inp i then
              emit [StoreCall ''delete_reminder'',
                    Success (''Reminder for '' @ quoted medicine
                             @ '' deleted successfully!'')]
                (s3\<lparr>db := delete_reminder (db s3) (user (ss s3)) medicine\<rparr>)
            else s3))"

definition list_reminders :: "inputs \<Rightarrow> run_state \<Rightarrow> status \<times> run_state" where
  "list_reminders inp s0 =
     (let s1 = emit [Subheader ''Your Reminders'', StoreCall ''get_reminders''] s0;
          rows = get_reminders (db s1) (user (ss s1))
      in if rows \<noteq> [] then (Returned, foldl (reminder_item inp) s1 rows)
         else (Returned, emit [Write ''No reminders set. Add reminders above.''] s1))"

definition schedule_body :: "inputs \<Rightarrow> run_state \<Rightarrow> status \<times> run_state" where
  "schedule_body inp s0 =
     (let s1 = emit [Subheader ''Your Medication Schedule'', StoreCall ''get_medicine_schedule'']
                 (add_medicine inp s0);
          schedule = get_medicine_schedule (db s1) (user (ss s1));
          s2 = (if schedule \<noteq> [] then foldl (schedule_item inp) s1 schedule else s1);
          s3 = emit [Subheader ''Set Reminder for Medicines'', Widget ''reminder_form'',
                     Widget ''Select medicine'', Widget ''Reminder Time''] s2;
          reminder_medicine_name = selectbox (map medicine_name schedule) (reminder_choice inp)
      in case next_dosage schedule reminder_medicine_name of
           Inl e \<Rightarrow> (Raised e, s3)
         | Inr dose \<Rightarrow>
             (let s4 = emit [Widget ''Set Reminder''] s3;
                  s5 = (if reminder_submitted inp then
                          emit [StoreCall ''store_reminder'',
                                Success (''Reminder for ''
                                         @ quoted (case reminder_medicine_name of
                                                     None \<Rightarrow> ''None'' | Some m \<Rightarrow> m)
                                         @ '' set for '' @ reminder_time inp)]
                            (s4\<lparr>db := store_reminder (db s4) (user (ss s4)) reminder_medicine_name
                                          (reminder_time inp) dose\<rparr>)
                        else s4)
              in list_reminders inp s5))"

definition schedule_page :: "inputs \<Rightarrow> run_state \<Rightarrow> status \<times> run_state" where
  "schedule_page inp s =
     (if \<not> logged_in (ss s) then
        (Returned,
         (emit [Warning ''You need to log in to access this page.''] s)\<lparr>page_var := Login\<rparr>)
      else schedule_body inp s)"

section \<open>Upload: ingestion, the one-shot check and automatic checking\<close>

text \<open>
  The body of \<^verbatim>\<open>if pdf is not None\<close>. The text of the pages is concatenated, split and
  embedded; the index is assigned to the session only after \<^verbatim>\<open>FAISS.from_texts\<close> has
  returned. Nothing here catches an exception. The extraction loop leaves the variable
  \<^verbatim>\<open>page\<close> at the last page of the document.
\<close>

definition ingest :: "world \<Rightarrow> string \<Rightarrow> run_state \<Rightarrow> status \<times> run_state" where
  "ingest w file s0 =
     (case PdfReader w file of
        Inl e \<Rightarrow> (Raised e, s0)
      | Inr pages \<Rightarrow>
          (let text = foldl (\<lambda>t p. t @ p) [] pages;
               s1 = (if pages = [] then s0 else s0\<lparr>page_var := PageObject (last pages)\<rparr>);
               texts = split_text w text
           in case from_texts w texts of
                Inl e \<Rightarrow> (Raised e, s1)
              | Inr index \<Rightarrow>
                  (Returned,
                   emit [Success ''PDF uploaded and processed successfully!'']
                     (s1\<lparr>ss := (ss s1)\<lparr>vectorstore := Some index\<rparr>\<rparr>))))"

definition no_medicines :: string where
  "no_medicines = ''No medicines scheduled for now.''"

text \<open>The button \<^verbatim>\<open>Check Medicine Schedule\<close>: the evaluation and the speech are inside
  \<^verbatim>\<open>try ... except Exception\<close>.\<close>

definition check_schedule :: "world \<Rightarrow> FAISS \<Rightarrow> run_state \<Rightarrow> run_state" where
  "check_schedule w index s0 =
     (let k = calls s0;
          s1 = emit [Evaluate k] (s0\<lparr>calls := Suc k\<rparr>)
      in case check_medicine_time w k index of
           Inl e \<Rightarrow> emit [Error (''Error: '' @ str_of e)] s1
         | Inr reminder \<Rightarrow>
             (let s2 = emit [Write reminder] s1
              in if reminder \<noteq> no_medicines then
                   (let s3 = emit [Busy (isBusy w k)] s2
                    in if \<not> isBusy w k then emit [Say reminder, RunAndWait] s3 else s3)
                 else s2))"

text \<open>One iteration of \<^verbatim>\<open>while True\<close> under the automatic-checking checkbox. There is
  no \<^verbatim>\<open>try\<close> around it.\<close>

definition auto_check_body :: "world \<Rightarrow> FAISS \<Rightarrow> run_state \<Rightarrow> status \<times> run_state" where
  "auto_check_body w index s0 =
     (let k = calls s0;
          s1 = emit [Evaluate k] (s0\<lparr>calls := Suc k\<rparr>)
      in case check_medicine_time w k index of
           Inl e \<Rightarrow> (Raised e, s1)
         | Inr reminder \<Rightarrow>
             (let s2 = emit [Write reminder, Busy (isBusy w k)] s1;
                  s3 = (if \<not> isBusy w k then emit [Say reminder, RunAndWait] s2 else s2)
              in (Returned, emit [Sleep 60] s3)))"

text \<open>
  The loop, run for at most \<open>n\<close> iterations: \<open>Running\<close> says that after \<open>n\<close> iterations
  the loop is still going. The loop has no \<^verbatim>\<open>break\<close>, so it never gives \<open>Returned\<close>.
\<close>

fun auto_check_loop :: "nat \<Rightarrow> world \<Rightarrow> FAISS \<Rightarrow> run_state \<Rightarrow> status \<times> run_state" where
  "auto_check_loop 0 w index s = (Running, s)"
| "auto_check_loop (Suc n) w index s =
     (case auto_check_body w index s of
        (st, s') \<Rightarrow>
          (case st of
             Returned \<Rightarrow> auto_check_loop n w index s'
           | Raised e \<Rightarrow> (Raised e, s')
           | Running \<Rightarrow> (Running, s')))"

definition upload_checks :: "nat \<Rightarrow> world \<Rightarrow> inputs \<Rightarrow> run_state \<Rightarrow> status \<times> run_state" where
  "upload_checks n w inp s0 =
     (case vectorstore (ss s0) of
        None \<Rightarrow> (Returned, s0)
      | Some index \<Rightarrow>
          (let s1 = emit [Subheader (''Current Time: '' @ clock w (calls s0)),
                          Widget ''Check Medicine Schedule''] s0;
               s2 = (if check_button inp then check_schedule w index s1 else s1);
               s3 = emit [Widget ''Enable automatic checking (every minute)''] s2
           in if auto_check inp then auto_check_loop n w index s3 else (Returned, s3)))"

definition upload_body :: "nat \<Rightarrow> world \<Rightarrow> inputs \<Rightarrow> run_state \<Rightarrow> status \<times> run_state" where
  "upload_body n w inp s0 =
     (let s1 = emit [Header ''Upload Prescription (Experimental)'',
                     Widget ''Upload prescription PDF''] s0
      in case pdf inp of
           None \<Rightarrow> upload_checks n w inp s1
         | Some file \<Rightarrow>
             (case ingest w file s1 of
                (st, s2) \<Rightarrow>
                  (case st of
                     Returned \<Rightarrow> upload_checks n w inp s2
                   | Raised e \<Rightarrow> (Raised e, s2)
                   | Running \<Rightarrow> (Running, s2))))"

definition upload_page :: "nat \<Rightarrow> world \<Rightarrow> inputs \<Rightarrow> run_state \<Rightarrow> status \<times> run_state" where
  "upload_page n w inp s =
     (if \<not> logged_in (ss s) then
        (Returned,
         (emit [Warning ''You need to log in to access this page.''] s)\<lparr>page_var := Login\<rparr>)
      else upload_body n w inp s)"

section \<open>Voice recognition\<close>

definition lower_char :: "char \<Rightarrow> char" where
  "lower_char c =
     (if 65 \<le> (of_char c :: nat) \<and> (of_char c :: nat) \<le> 90 then char_of (of_char c + (32 :: nat))
      else c)"

definition lower :: "string \<Rightarrow> string" where
  "lower t = map lower_char t"

text \<open>\<^verbatim>\<open>needle in haystack\<close> on strings.\<close>

fun contains :: "string \<Rightarrow> string \<Rightarrow> bool" where
  "contains needle [] = (needle = [])"
| "contains needle (c # cs) =
     (if take (length needle) (c # cs) = needle then True else contains needle cs)"

definition recognised :: "inputs \<Rightarrow> string \<Rightarrow> run_state \<Rightarrow> run_state" where
  "recognised inp t s0 =
     (let s1 = emit [Write (''You said: '' @ t), WriteFile ''recognized_speech.txt'' t,
                     Success (''Recognized text has been saved to '' @ quoted ''recognized_speech.txt''
                              @ ''.'')] s0
      in if contains ''medicine'' (lower t) then
           (let s2 = emit [Write ''You mentioned a medicine. Would you like to search or set a reminder?'',
                           Widget ''Set Reminder for Mentioned Medicine''] s1
            in if set_reminder_button inp then
                 emit [Write (''Setting a reminder for '' @ t @ ''... (Demo)'')] s2
               else s2)
         else s1)"

definition voice_body :: "world \<Rightarrow> inputs \<Rightarrow> run_state \<Rightarrow> status \<times> run_state" where
  "voice_body w inp s0 =
     (let s1 = emit [Header ''Voice Recognition (Experimental)'', Widget ''Start Recording''] s0
      in if start_recording inp then
           (let s2 = emit [Write ''Adjusting for ambient noise...'', Write ''Say something!'',
                           Listen] s1
            in case listen w of
                 Inl e \<Rightarrow> (Raised e, s2)
               | Inr audio \<Rightarrow>
                   (let s3 = emit [Write ''Recognizing speech...''] s2
                    in case recognize_google w audio of
                         Inr t \<Rightarrow> (Returned, recognised inp t s3)
                       | Inl UnknownValueError \<Rightarrow>
                           (Returned,
                            emit [Error ''Google Speech Recognition could not understand the audio.''] s3)
                       | Inl (RequestError m) \<Rightarrow>
                           (Returned,
                            emit [Error (''Could not request results from Google Speech Recognition; ''
                                         @ m)] s3)
                       | Inl e \<Rightarrow> (Raised e, s3)))
         else (Returned, s1))"

definition voice_page :: "world \<Rightarrow> inputs \<Rightarrow> run_state \<Rightarrow> status \<times> run_state" where
  "voice_page w inp s =
     (if \<not> logged_in (ss s) then
        (Returned,
         (emit [Warning ''You need to log in to access this page.''] s)\<lparr>page_var := Login\<rparr>)
      else voice_body w inp s)"

section \<open>The module: start-up, menu and dispatch\<close>

text \<open>
  The \<^verbatim>\<open>if / elif\<close> chain over \<^verbatim>\<open>page\<close>, in the order of the source. Only the first
  branch whose test holds runs: an assignment to \<^verbatim>\<open>page\<close> inside a branch is not tested
  again.
\<close>

definition render_page :: "nat \<Rightarrow> world \<Rightarrow> inputs \<Rightarrow> run_state \<Rightarrow> status \<times> run_state" where
  "render_page n w inp s =
     (if page_var s = Home then home_page s
      else if page_var s = Dashboard then dashboard_page s
      else if page_var s = Login then login_page inp s
      else if page_var s = Register then register_page inp s
      else if page_var s = Schedule_Reminders then schedule_page inp s
      else if page_var s = Upload then upload_page n w inp s
      else if page_var s = Voice_Recognition then voice_page w inp s
      else (Returned, s))"

text \<open>\<^verbatim>\<open>os.environ("GOOGLE_API_KEY")\<close>: the mapping object is not callable.\<close>

definition os_environ_call :: "environ \<Rightarrow> string \<Rightarrow> error + string" where
  "os_environ_call environ key = Inl (TypeError (quoted ''_Environ'' @ '' object is not callable''))"

definition load_key :: "world \<Rightarrow> environ \<Rightarrow> error + environ" where
  "load_key w env0 =
     (let environ = load_dotenv w env0
      in if environ ''GOOGLE_API_KEY'' = None then
           (case os_environ_call environ ''GOOGLE_API_KEY'' of
              Inl e \<Rightarrow> Inl e
            | Inr v \<Rightarrow> Inr (environ(''GOOGLE_API_KEY'' \<mapsto> v)))
         else Inr environ)"

text \<open>\<^verbatim>\<open>if 'logged_in' not in st.session_state\<close>: a new session has no keys.\<close>

definition init_session :: "session option \<Rightarrow> session" where
  "init_session s0 =
     (case s0 of
        None \<Rightarrow> \<lparr>logged_in = False, user = None, vectorstore = None\<rparr>
      | Some s \<Rightarrow> s)"

text \<open>
  One run of the script: the key check, the store's initialisation, the session's
  initialisation, the style sheet, the sidebar menu and the page. \<open>Inl e\<close>: the module
  raised \<open>e\<close> before anything was drawn. The constructors of the speech engine and of the
  recogniser, which come after the key check, are taken to succeed.
\<close>

definition app ::
  "nat \<Rightarrow> world \<Rightarrow> environ \<Rightarrow> inputs \<Rightarrow> database \<Rightarrow> session option
     \<Rightarrow> error + status \<times> run_state" where
  "app n w env0 inp d session0 =
     (case load_key w env0 of
        Inl e \<Rightarrow> Inl e
      | Inr environ \<Rightarrow>
          Inr (render_page n w inp
                 \<lparr>db = d, ss = init_session session0,
                  out = [StoreCall ''init_auth_db'', Markdown ''style'', Widget ''Main Menu''],
                  calls = 0, page_var = menu inp\<rparr>))"

section \<open>Traces of the automatic check and of the speech engine\<close>

text \<open>
  What one iteration of the automatic-checking loop shows and calls when it is the
  \<open>k\<close>-th evaluation of the run: the evaluation, the reply written to the page, the busy
  check, the utterance when the engine was free, and the sleep of sixty seconds. An
  iteration whose evaluation raises stops after the evaluation.
\<close>

definition iteration_events :: "world \<Rightarrow> FAISS \<Rightarrow> nat \<Rightarrow> event list" where
  "iteration_events w index k =
     (case check_medicine_time w k index of
        Inl e \<Rightarrow> [Evaluate k]
      | Inr reminder \<Rightarrow>
          [Evaluate k, Write reminder, Busy (isBusy w k)]
          @ (if isBusy w k then [] else [Say reminder, RunAndWait])
          @ [Sleep 60])"



section \<open>Concrete scenarios\<close>

definition no_entry :: medicine_schedule where
  "no_entry = \<lparr>medicine_name = [], morning = False, afternoon = False, night = False,
               dosage = []\<rparr>"

text \<open>A run in which no widget is touched; the menu stands at \<open>p\<close>.\<close>

definition untouched :: "page \<Rightarrow> inputs" where
  "untouched p =
     \<lparr>menu = p, login_username = [], login_password = [], login_button = False,
      username = [], password = [], confirm_password = [], register_button = False,
      medicine_form = no_entry, submitted = False,
      edit_form = (\<lambda>name. no_entry), update_submitted = (\<lambda>name. False),
      delete_submitted = (\<lambda>name. False),
      reminder_choice = 0, reminder_time = ''08:00'', reminder_submitted = False,
      edit_reminder_time = (\<lambda>i. ''08:00''), edit_dosage = (\<lambda>i. []),
      update_reminder_submitted = (\<lambda>i. False), delete_reminder_submitted = (\<lambda>i. False),
      pdf = None, check_button = False, auto_check = False,
      start_recording = False, set_reminder_button = False\<rparr>"

definition alice_db :: database where
  "alice_db = \<lparr>users = [(0, ''alice'', ''pw1'')], schedules = [], reminders = []\<rparr>"

definition anonymous :: session where
  "anonymous = \<lparr>logged_in = False, user = None, vectorstore = None\<rparr>"

definition alice :: session where
  "alice = \<lparr>logged_in = True, user = Some ''alice'', vectorstore = None\<rparr>"

definition alice_with_index :: session where
  "alice_with_index = \<lparr>logged_in = True, user = Some ''alice'', vectorstore = Some demo_index\<rparr>"

text \<open>The state in which a page starts when the session is \<open>s\<close> and the menu stands at \<open>p\<close>.\<close>

definition at_page :: "page \<Rightarrow> session \<Rightarrow> run_state" where
  "at_page p s = \<lparr>db = alice_db, ss = s, out = [], calls = 0, page_var = p\<rparr>"

text \<open>A world whose hosted model refuses every request.\<close>

definition quota_world :: world where
  "quota_world = echo_world\<lparr>llm := (\<lambda>k p. Inl (LibraryError ''quota exceeded''))\<rparr>"

text \<open>A world whose model always finds a medicine due.\<close>

definition due_world :: world where
  "due_world = echo_world\<lparr>llm := (\<lambda>k p. Inr ''Take Aspirin now'')\<rparr>"

text \<open>An environment in which the key is set.\<close>

definition key_set :: environ where
  "key_set = [''GOOGLE_API_KEY'' \<mapsto> ''secret'']"

text \<open>A registration whose two password fields differ.\<close>

definition mismatched_registration :: inputs where
  "mismatched_registration =
     (untouched Register)\<lparr>username := ''bob'', password := ''secret'',
                           confirm_password := ''secrte'', register_button := True\<rparr>"

text \<open>A login of alice with a password that is not hers.\<close>

definition wrong_password_login :: inputs where
  "wrong_password_login =
     (untouched Login)\<lparr>login_username := ''alice'', login_password := ''pw2'',
                        login_button := True\<rparr>"

text \<open>The Upload page with the button pressed, and with automatic checking selected.\<close>

definition one_shot :: inputs where
  "one_shot = (untouched Upload)\<lparr>check_button := True\<rparr>"

definition auto_checking :: inputs where
  "auto_checking = (untouched Upload)\<lparr>auto_check := True\<rparr>"

text \<open>The upload of a scanned document: its one page has no text.\<close>

definition scanned_upload :: inputs where
  "scanned_upload = (untouched Upload)\<lparr>pdf := Some []\<rparr>"

section \<open>Properties of the reminder evaluator\<close>

lemma pipe_Inr: "a x = Inr y \<Longrightarrow> pipe a b x = b y"
  by (simp add: pipe_def)

lemma pipe_Inl: "a x = Inl e \<Longrightarrow> pipe a b x = Inl e"
  by (simp add: pipe_def)

lemma dict_stage_Inl:
  assumes "similarity_search index q = Inl e"
  shows "RunnableParallel
           (pipe (as_retriever index) (coerce_to_runnable format_docs))
           RunnablePassthrough q = Inl e"
  using assms by (simp add: RunnableParallel_def pipe_def as_retriever_def)

lemma dict_stage_Inr:
  assumes "similarity_search index q = Inr docs"
  shows "RunnableParallel
           (pipe (as_retriever index) (coerce_to_runnable format_docs))
           RunnablePassthrough q
         = Inr \<lparr>context_var = format_docs docs, current_time_var = q\<rparr>"
  using assms
  by (simp add: RunnableParallel_def pipe_def as_retriever_def coerce_to_runnable_def
      RunnablePassthrough_def)

lemma chain_unfolded:
  "chain w k index q =
     (case similarity_search index q of
        Inl e \<Rightarrow> Inl e
      | Inr docs \<Rightarrow> llm w k (prompt \<lparr>context_var = format_docs docs, current_time_var = q\<rparr>))"
proof (cases "similarity_search index q")
  case (Inl e)
  then show ?thesis
    by (simp add: chain_def pipe_Inl dict_stage_Inl)
next
  case (Inr docs)
  have "pipe (RunnableParallel
                (pipe (as_retriever index) (coerce_to_runnable format_docs))
                RunnablePassthrough)
             (coerce_to_runnable prompt) q
        = Inr (prompt \<lparr>context_var = format_docs docs, current_time_var = q\<rparr>)"
    using dict_stage_Inr [OF Inr] by (simp add: pipe_def coerce_to_runnable_def)
  then show ?thesis
    using Inr by (simp add: chain_def pipe_Inr)
qed

text \<open>
  C1 (amended). The chain is invoked with the formatted current time, and the dict stage
  hands that same input to the retriever: the similarity search is asked the current time
  string, not a fixed generic query. The page contents of the documents it returns, joined
  by blank lines, are the context variable of the prompt; the current time is the other
  variable; an exception of the search propagates.
\<close>

theorem check_medicine_time_context:
  "check_medicine_time w k index =
     (case similarity_search index (clock w k) of
        Inl e \<Rightarrow> Inl e
      | Inr docs \<Rightarrow>
          llm w k (prompt \<lparr>context_var = join (nl @ nl) (map page_content docs),
                            current_time_var = clock w k\<rparr>))"
  by (simp add: check_medicine_time_def Let_def chain_unfolded format_docs_def split: sum.split)

text \<open>
  C1 as stated fails: at 09:00 AM the evaluator sends the model the chunk that matches
  the time, whereas the generic query would have retrieved the other chunk.
\<close>

theorem check_medicine_time_generic_query_counterexample:
  "check_medicine_time echo_world 0 demo_index \<noteq> spec_evaluate echo_world 0 demo_index"
  by (simp add: check_medicine_time_def Let_def chain_unfolded spec_evaluate_def generic_query_def
      echo_world_def demo_index_def format_docs_def prompt_def morning_chunk_def
      night_chunk_def nl_def dq_def)

section \<open>Properties of a run\<close>

lemma ss_emit [simp]: "ss (emit es s) = ss s"
  by (simp add: emit_def)

lemma db_emit [simp]: "db (emit es s) = db s"
  by (simp add: emit_def)

lemma calls_emit [simp]: "calls (emit es s) = calls s"
  by (simp add: emit_def)

lemma page_var_emit [simp]: "page_var (emit es s) = page_var s"
  by (simp add: emit_def)

lemma out_emit [simp]: "out (emit es s) = out s @ es"
  by (simp add: emit_def)

lemma load_key_echo: "load_key echo_world key_set = Inr key_set"
  by (simp add: load_key_def echo_world_def key_set_def)

lemma load_key_quota: "load_key quota_world key_set = Inr key_set"
  by (simp add: load_key_def quota_world_def echo_world_def key_set_def)

lemma quota_world_raises:
  "check_medicine_time quota_world k demo_index = Inl (LibraryError ''quota exceeded'')"
  by (simp add: check_medicine_time_def chain_unfolded Let_def quota_world_def echo_world_def
      demo_index_def)

lemma due_world_replies:
  "check_medicine_time due_world k demo_index = Inr ''Take Aspirin now''"
  by (simp add: check_medicine_time_def chain_unfolded Let_def due_world_def echo_world_def
      demo_index_def)

subsection \<open>Start-up\<close>

text \<open>
  C9. If \<^verbatim>\<open>GOOGLE_API_KEY\<close> is not in the environment when the module checks for it (after
  \<^verbatim>\<open>load_dotenv()\<close>), the fallback calls \<^verbatim>\<open>os.environ\<close> as a function and the module
  raises \<^verbatim>\<open>TypeError\<close>: whatever the inputs, the store and the session, the run ends there
  and no page is drawn.
\<close>

theorem missing_key_raises_type_error:
  "load_dotenv w env0 ''GOOGLE_API_KEY'' = None \<Longrightarrow>
     app n w env0 inp d session0
       = Inl (TypeError (quoted ''_Environ'' @ '' object is not callable''))"
  by (simp add: app_def load_key_def os_environ_call_def)

theorem missing_key_raises_type_error_witness:
  "load_dotenv echo_world Map.empty ''GOOGLE_API_KEY'' = None \<and>
   app 0 echo_world Map.empty (untouched Home) alice_db None
     = Inl (TypeError (quoted ''_Environ'' @ '' object is not callable''))"
proof -
  have h: "load_dotenv echo_world Map.empty ''GOOGLE_API_KEY'' = None"
    by (simp add: echo_world_def)
  show ?thesis
    using h missing_key_raises_type_error [OF h, of 0 "untouched Home" alice_db None]
    by simp
qed

subsection \<open>The authentication gate\<close>

text \<open>
  What the gate of the four guarded pages does when the flag is unset: a warning, and an
  assignment to \<^verbatim>\<open>page\<close>. No store or evaluator call is made; the chain of page tests is
  not entered again, so nothing of the Login page is drawn.
\<close>

lemma gate_unset:
  assumes "\<not> logged_in (ss s)"
  shows "page_var s = Dashboard \<Longrightarrow>
           render_page n w inp s =
             (Returned, s\<lparr>out := out s @ [Warning ''You need to log in to access the Home page.''],
                           page_var := Login\<rparr>)"
    and "page_var s = Schedule_Reminders \<or> page_var s = Upload \<or> page_var s = Voice_Recognition \<Longrightarrow>
           render_page n w inp s =
             (Returned, s\<lparr>out := out s @ [Warning ''You need to log in to access this page.''],
                           page_var := Login\<rparr>)"
  using assms
  by (auto simp add: render_page_def dashboard_page_def schedule_page_def upload_page_def
      voice_page_def emit_def)

text \<open>
  C3, at the input where it fails: a new session selects Dashboard. The run shows the
  warning and assigns Login to \<^verbatim>\<open>page\<close>, and that is all: no store or evaluator call after
  the module's own \<^verbatim>\<open>init_auth_db()\<close>, but no header, field or button of the Login page
  either. The same holds for the three other guarded pages.
\<close>

theorem gate_draws_no_login_form:
  "app 0 echo_world key_set (untouched Dashboard) alice_db None =
     Inr (Returned,
          \<lparr>db = alice_db, ss = anonymous,
           out = [StoreCall ''init_auth_db'', Markdown ''style'', Widget ''Main Menu'',
                  Warning ''You need to log in to access the Home page.''],
           calls = 0, page_var = Login\<rparr>)
   \<and> app 0 echo_world key_set (untouched Schedule_Reminders) alice_db None =
     Inr (Returned,
          \<lparr>db = alice_db, ss = anonymous,
           out = [StoreCall ''init_auth_db'', Markdown ''style'', Widget ''Main Menu'',
                  Warning ''You need to log in to access this page.''],
           calls = 0, page_var = Login\<rparr>)
   \<and> app 0 echo_world key_set (untouched Upload) alice_db None =
     Inr (Returned,
          \<lparr>db = alice_db, ss = anonymous,
           out = [StoreCall ''init_auth_db'', Markdown ''style'', Widget ''Main Menu'',
                  Warning ''You need to log in to access this page.''],
           calls = 0, page_var = Login\<rparr>)
   \<and> app 0 echo_world key_set (untouched Voice_Recognition) alice_db None =
     Inr (Returned,
          \<lparr>db = alice_db, ss = anonymous,
           out = [StoreCall ''init_auth_db'', Markdown ''style'', Widget ''Main Menu'',
                  Warning ''You need to log in to access this page.''],
           calls = 0, page_var = Login\<rparr>)"
  unfolding app_def load_key_echo
  by (simp add: gate_unset init_session_def anonymous_def untouched_def)

subsection \<open>Registration and login\<close>

text \<open>
  C6. A registration whose password and confirmation differ shows the form and the inline
  error \<^verbatim>\<open>Passwords do not match!\<close> and changes nothing else: the store and the session
  are as before and \<^verbatim>\<open>register_user\<close> is not called.
\<close>

theorem register_mismatch_no_state_change:
  assumes "register_button inp" and "password inp \<noteq> confirm_password inp"
  shows "register_page inp s =
           (Returned,
            s\<lparr>out := out s @ [Header ''User Registration'', Widget ''Enter a username'',
                               Widget ''Enter a password'', Widget ''Confirm password'',
                               Widget ''Register'', Error ''Passwords do not match!'']\<rparr>)"
  using assms by (simp add: register_page_def emit_def Let_def)

theorem register_mismatch_no_state_change_witness:
  "register_button mismatched_registration
   \<and> password mismatched_registration \<noteq> confirm_password mismatched_registration
   \<and> register_page mismatched_registration (at_page Register anonymous) =
       (Returned,
        \<lparr>db = alice_db, ss = anonymous,
         out = [Header ''User Registration'', Widget ''Enter a username'',
                Widget ''Enter a password'', Widget ''Confirm password'',
                Widget ''Register'', Error ''Passwords do not match!''],
         calls = 0, page_var = Register\<rparr>)"
proof -
  have a: "register_button mismatched_registration"
    by (simp add: mismatched_registration_def)
  have b: "password mismatched_registration \<noteq> confirm_password mismatched_registration"
    by (simp add: mismatched_registration_def)
  show ?thesis
    using a b register_mismatch_no_state_change [OF a b, of "at_page Register anonymous"]
    by (simp add: at_page_def)
qed

lemma login_user_None_iff:
  "login_user d name pw = None \<longleftrightarrow>
     (\<forall>row \<in> set (users d). \<not> (row_username row = name \<and> row_password row = pw))"
  by (auto simp add: login_user_def find_None_iff)

lemma login_user_wrong_password:
  assumes "distinct (map row_username (users d))"
      and "(i, name, pw) \<in> set (users d)" and "pw' \<noteq> pw"
  shows "login_user d name pw' = None"
proof -
  have "\<not> (row_username row = name \<and> row_password row = pw')"
    if "row \<in> set (users d)" for row
  proof
    assume a: "row_username row = name \<and> row_password row = pw'"
    have "row_username (i, name, pw) = name"
      by (simp add: row_username_def)
    with a that assms(1,2) have "row = (i, name, pw)"
      by (metis distinct_map inj_on_def)
    with a assms(3) show False
      by (simp add: row_password_def)
  qed
  then show ?thesis
    by (simp add: login_user_None_iff)
qed

text \<open>
  C7. In a store whose usernames are unique, a login with a registered username and a
  password other than the registered one finds no user record; the Login page then shows
  \<^verbatim>\<open>Invalid username or password\<close> and leaves the session as it was: the logged-in flag and
  the session user are not assigned.
\<close>

theorem login_wrong_password:
  assumes "distinct (map row_username (users (db s)))"
      and "(i, name, pw) \<in> set (users (db s))"
      and "pw' \<noteq> pw"
      and "login_button inp" and "login_username inp = name" and "login_password inp = pw'"
  shows "login_user (db s) name pw' = None
         \<and> login_page inp s =
             (Returned,
              s\<lparr>out := out s @ [Header ''User Login'', Widget ''Username'', Widget ''Password'',
                                 Widget ''Login'', StoreCall ''login_user'',
                                 Error ''Invalid username or password'']\<rparr>)"
  using login_user_wrong_password [OF assms(1-3)] assms(4-6)
  by (simp add: login_page_def emit_def Let_def)

theorem login_wrong_password_witness:
  "distinct (map row_username (users (db (at_page Login anonymous))))
   \<and> (0, ''alice'', ''pw1'') \<in> set (users (db (at_page Login anonymous)))
   \<and> ''pw2'' \<noteq> ''pw1''
   \<and> login_user alice_db ''alice'' ''pw2'' = None
   \<and> login_page wrong_password_login (at_page Login anonymous) =
       (Returned,
        \<lparr>db = alice_db, ss = anonymous,
         out = [Header ''User Login'', Widget ''Username'', Widget ''Password'',
                Widget ''Login'', StoreCall ''login_user'',
                Error ''Invalid username or password''],
         calls = 0, page_var = Login\<rparr>)"
proof -
  have a: "distinct (map row_username (users (db (at_page Login anonymous))))"
    by (simp add: at_page_def alice_db_def)
  have b: "(0, ''alice'', ''pw1'') \<in> set (users (db (at_page Login anonymous)))"
    by (simp add: at_page_def alice_db_def)
  have c: "''pw2'' \<noteq> ''pw1''"
    by simp
  have d: "login_button wrong_password_login"
    and e: "login_username wrong_password_login = ''alice''"
    and f: "login_password wrong_password_login = ''pw2''"
    by (simp_all add: wrong_password_login_def)
  show ?thesis
    using a b login_wrong_password [OF a b c d e f]
    by (simp add: at_page_def)
qed

subsection \<open>The reminder form\<close>

lemma ss_add_medicine [simp]: "ss (add_medicine inp s) = ss s"
  by (simp add: add_medicine_def Let_def)

text \<open>
  C10. For a logged-in user, when the schedule that the page reads back from the store is
  empty (the read comes after an Add Medicine submission of the same run has been stored),
  the reminder form has no options, the selection is \<^verbatim>\<open>None\<close>, the generator of the
  dosage lookup is empty and \<^verbatim>\<open>next\<close> raises \<^verbatim>\<open>StopIteration\<close>. Nothing catches it: the
  page stops inside the reminder form, before its submit button and before the list of
  reminders.
\<close>

theorem empty_schedule_stop_iteration:
  assumes "logged_in (ss s)"
      and "get_medicine_schedule (db (add_medicine inp s)) (user (ss s)) = []"
  shows "fst (schedule_page inp s) = Raised StopIteration
         \<and> out (snd (schedule_page inp s)) =
             out (add_medicine inp s)
             @ [Subheader ''Your Medication Schedule'', StoreCall ''get_medicine_schedule'',
                Subheader ''Set Reminder for Medicines'', Widget ''reminder_form'',
                Widget ''Select medicine'', Widget ''Reminder Time'']"
  using assms by (simp add: schedule_page_def schedule_body_def Let_def selectbox_def)

theorem empty_schedule_stop_iteration_witness:
  "logged_in (ss (at_page Schedule_Reminders alice))
   \<and> get_medicine_schedule
        (db (add_medicine (untouched Schedule_Reminders) (at_page Schedule_Reminders alice)))
        (user (ss (at_page Schedule_Reminders alice))) = []
   \<and> fst (schedule_page (untouched Schedule_Reminders) (at_page Schedule_Reminders alice))
       = Raised StopIteration
   \<and> out (snd (schedule_page (untouched Schedule_Reminders) (at_page Schedule_Reminders alice)))
       = [Header ''Manage Medication Schedule and Reminders'',
          Subheader ''Add Medication Schedule'', Widget ''medicine_form'',
          Subheader ''Your Medication Schedule'', StoreCall ''get_medicine_schedule'',
          Subheader ''Set Reminder for Medicines'', Widget ''reminder_form'',
          Widget ''Select medicine'', Widget ''Reminder Time'']"
proof -
  have a: "logged_in (ss (at_page Schedule_Reminders alice))"
    by (simp add: at_page_def alice_def)
  have b: "get_medicine_schedule
             (db (add_medicine (untouched Schedule_Reminders) (at_page Schedule_Reminders alice)))
             (user (ss (at_page Schedule_Reminders alice))) = []"
    by (simp add: add_medicine_def Let_def untouched_def at_page_def alice_db_def
        get_medicine_schedule_def)
  have c: "out (add_medicine (untouched Schedule_Reminders) (at_page Schedule_Reminders alice))
           = [Header ''Manage Medication Schedule and Reminders'',
              Subheader ''Add Medication Schedule'', Widget ''medicine_form'']"
    by (simp add: add_medicine_def Let_def untouched_def at_page_def)
  show ?thesis
    using a b empty_schedule_stop_iteration [OF a b] by (simp add: c)
qed

subsection \<open>Ingestion\<close>

lemma foldl_append_concat: "foldl (\<lambda>t p. t @ p) acc pages = acc @ concat pages"
  by (induction pages arbitrary: acc) simp_all

text \<open>
  C4. The handler has no test of its own for an empty text; the failure is the library's.
  Given what the libraries do on empty input (the splitter returns no chunk for the empty
  string, and \<^verbatim>\<open>FAISS.from_texts\<close> raises on an empty list of chunks), an uploaded PDF
  whose pages yield no text makes the Upload page raise that exception: nothing catches it,
  the assignment to \<^verbatim>\<open>st.session_state.vectorstore\<close> is not reached, so the session is
  as before, and neither the success message nor the check section is drawn.
\<close>

theorem ingest_without_text_fails:
  assumes "logged_in (ss s)" and "pdf inp = Some f"
      and "PdfReader w f = Inr pages" and "concat pages = []"
      and "split_text w [] = []" and "from_texts w [] = Inl e"
  shows "fst (upload_page n w inp s) = Raised e
         \<and> ss (snd (upload_page n w inp s)) = ss s
         \<and> out (snd (upload_page n w inp s)) =
             out s @ [Header ''Upload Prescription (Experimental)'',
                      Widget ''Upload prescription PDF'']"
proof -
  let ?s1 = "emit [Header ''Upload Prescription (Experimental)'',
                   Widget ''Upload prescription PDF''] s"
  let ?s2 = "if pages = [] then ?s1 else ?s1\<lparr>page_var := PageObject (last pages)\<rparr>"
  have empty_text: "foldl (\<lambda>t p. t @ p) [] pages = []"
    using assms(4) by (simp only: foldl_append_concat append_Nil)
  have "ingest w f ?s1 = (Raised e, ?s2)"
    by (simp add: ingest_def Let_def empty_text assms(3,5,6))
  then have "upload_body n w inp s = (Raised e, ?s2)"
    using assms(2) by (simp add: upload_body_def Let_def)
  then show ?thesis
    using assms(1) by (simp add: upload_page_def)
qed

theorem ingest_without_text_fails_witness:
  "logged_in (ss (at_page Upload alice))
   \<and> pdf scanned_upload = Some []
   \<and> PdfReader echo_world [] = Inr [[]]
   \<and> concat [[] :: string] = []
   \<and> split_text echo_world [] = []
   \<and> from_texts echo_world [] = Inl (LibraryError ''list index out of range'')
   \<and> fst (upload_page 1 echo_world scanned_upload (at_page Upload alice))
       = Raised (LibraryError ''list index out of range'')
   \<and> vectorstore (ss (snd (upload_page 1 echo_world scanned_upload (at_page Upload alice))))
       = None"
proof -
  have a: "logged_in (ss (at_page Upload alice))"
    by (simp add: at_page_def alice_def)
  have b: "pdf scanned_upload = Some []"
    by (simp add: scanned_upload_def)
  have c: "PdfReader echo_world [] = Inr [[]]"
    by (simp add: echo_world_def)
  have d: "concat [[] :: string] = []"
    by simp
  have e: "split_text echo_world [] = []"
    by (simp add: echo_world_def)
  have g: "from_texts echo_world [] = Inl (LibraryError ''list index out of range'')"
    by (simp add: echo_world_def)
  show ?thesis
    using a b c e g ingest_without_text_fails [OF a b c d e g, of 1]
    by (simp add: at_page_def alice_def)
qed

subsection \<open>Exceptions of the evaluator on the Upload page\<close>

text \<open>
  C2, at the input where it fails: alice has an index in her session, selects automatic
  checking, and the hosted model refuses the request. The button path catches the
  exception and shows \<^verbatim>\<open>Error: quota exceeded\<close>; the loop path has no \<^verbatim>\<open>try\<close>, so the
  exception leaves the loop, the page and the module, and no error message is drawn.
\<close>

theorem auto_check_exception_propagates:
  "app 1 quota_world key_set one_shot alice_db (Some alice_with_index) =
     Inr (Returned,
          \<lparr>db = alice_db, ss = alice_with_index,
           out = [StoreCall ''init_auth_db'', Markdown ''style'', Widget ''Main Menu'',
                  Header ''Upload Prescription (Experimental)'',
                  Widget ''Upload prescription PDF'',
                  Subheader ''Current Time: 09:00 AM'',
                  Widget ''Check Medicine Schedule'',
                  Evaluate 0, Error ''Error: quota exceeded'',
                  Widget ''Enable automatic checking (every minute)''],
           calls = 1, page_var = Upload\<rparr>)
   \<and> app 1 quota_world key_set auto_checking alice_db (Some alice_with_index) =
     Inr (Raised (LibraryError ''quota exceeded''),
          \<lparr>db = alice_db, ss = alice_with_index,
           out = [StoreCall ''init_auth_db'', Markdown ''style'', Widget ''Main Menu'',
                  Header ''Upload Prescription (Experimental)'',
                  Widget ''Upload prescription PDF'',
                  Subheader ''Current Time: 09:00 AM'',
                  Widget ''Check Medicine Schedule'',
                  Widget ''Enable automatic checking (every minute)'',
                  Evaluate 0],
           calls = 1, page_var = Upload\<rparr>)"
proof -
  have t: "clock quota_world 0 = ''09:00 AM''"
    by (simp add: quota_world_def echo_world_def)
  show ?thesis
    unfolding app_def load_key_quota
    by (simp add: render_page_def untouched_def one_shot_def auto_checking_def
        upload_page_def upload_body_def upload_checks_def check_schedule_def
        auto_check_body_def quota_world_raises t init_session_def alice_with_index_def
        emit_def Let_def)
qed

subsection \<open>The busy check before speaking\<close>













lemma due_world_free: "isBusy due_world k = False"
  by (simp add: due_world_def echo_world_def)

lemma due_world_iteration:
  "iteration_events due_world demo_index k =
     [Evaluate k, Write ''Take Aspirin now'', Busy False, Say ''Take Aspirin now'',
      RunAndWait, Sleep 60]"
  by (simp add: iteration_events_def due_world_replies due_world_free)


subsection \<open>The automatic-checking loop\<close>

lemma auto_check_loop_not_Returned: "fst (auto_check_loop n w index s) \<noteq> Returned"
proof (induction n arbitrary: s)
  case 0
  show ?case by simp
next
  case (Suc n)
  obtain st s' where b: "auto_check_body w index s = (st, s')"
    by (cases "auto_check_body w index s")
  show ?case
    using b Suc.IH [of s'] by (cases st) simp_all
qed

lemma auto_check_body_ok:
  assumes "check_medicine_time w (calls s) index = Inr r"
  shows "auto_check_body w index s =
           (Returned, s\<lparr>calls := Suc (calls s),
                           out := out s @ iteration_events w index (calls s)\<rparr>)"
  using assms by (simp add: auto_check_body_def iteration_events_def Let_def emit_def)

lemma auto_check_loop_running:
  assumes "\<forall>k. calls s \<le> k \<and> k < calls s + n \<longrightarrow> \<not> isl (check_medicine_time w k index)"
  shows "auto_check_loop n w index s =
           (Running, s\<lparr>calls := calls s + n,
                          out := out s @ concat (map (iteration_events w index)
                                                   [calls s..<calls s + n])\<rparr>)"
  using assms
proof (induction n arbitrary: s)
  case 0
  show ?case by simp
next
  case (Suc n)
  from Suc.prems have "\<not> isl (check_medicine_time w (calls s) index)"
    by simp
  then obtain r where r: "check_medicine_time w (calls s) index = Inr r"
    by (cases "check_medicine_time w (calls s) index") simp_all
  let ?s' = "s\<lparr>calls := Suc (calls s), out := out s @ iteration_events w index (calls s)\<rparr>"
  have "\<forall>k. calls ?s' \<le> k \<and> k < calls ?s' + n \<longrightarrow> \<not> isl (check_medicine_time w k index)"
    using Suc.prems by simp
  from Suc.IH [OF this]
  have "auto_check_loop n w index ?s' =
          (Running, s\<lparr>calls := calls s + Suc n,
                         out := out s @ iteration_events w index (calls s)
                                @ concat (map (iteration_events w index)
                                            [Suc (calls s)..<Suc (calls s) + n])\<rparr>)"
    by simp
  moreover have "[calls s..<calls s + Suc n] = calls s # [Suc (calls s)..<Suc (calls s) + n]"
    by (simp add: upt_conv_Cons del: upt_Suc)
  ultimately show ?case
    by (simp add: auto_check_body_ok [OF r] del: upt_Suc)
qed

lemma upload_checks_auto:
  assumes "vectorstore (ss s) = Some index" and "auto_check inp"
  shows "fst (upload_checks n w inp s) \<noteq> Returned"
  using assms by (simp add: upload_checks_def Let_def auto_check_loop_not_Returned)

text \<open>
  What the loop does where no evaluation raises. For every number \<open>n\<close> of iterations:
  the loop has not returned (and so the part of the Upload page that holds it has not
  returned either); and as long as no evaluation raises, the loop is still running after
  \<open>n\<close> iterations and has done exactly \<open>n\<close> times the same thing: evaluate the reminder,
  write it, check the engine, speak if it is free, and sleep sixty seconds.
\<close>

lemma auto_check_loop_never_returns:
  "fst (auto_check_loop n w index s) \<noteq> Returned
   \<and> ((\<forall>k. calls s \<le> k \<and> k < calls s + n \<longrightarrow> \<not> isl (check_medicine_time w k index)) \<longrightarrow>
        auto_check_loop n w index s =
          (Running, s\<lparr>calls := calls s + n,
                        out := out s @ concat (map (iteration_events w index)
                                                 [calls s..<calls s + n])\<rparr>))
   \<and> (vectorstore (ss s) = Some index \<and> auto_check inp \<longrightarrow>
        fst (upload_checks n w inp s) \<noteq> Returned)"
proof (intro conjI impI)
  show "fst (auto_check_loop n w index s) \<noteq> Returned"
    by (rule auto_check_loop_not_Returned)
next
  assume "\<forall>k. calls s \<le> k \<and> k < calls s + n \<longrightarrow> \<not> isl (check_medicine_time w k index)"
  then show "auto_check_loop n w index s =
          (Running, s\<lparr>calls := calls s + n,
                        out := out s @ concat (map (iteration_events w index)
                                                 [calls s..<calls s + n])\<rparr>)"
    by (rule auto_check_loop_running)
next
  assume "vectorstore (ss s) = Some index \<and> auto_check inp"
  then show "fst (upload_checks n w inp s) \<noteq> Returned"
    by (simp add: upload_checks_auto)
qed

lemma auto_check_loop_never_returns_witness:
  "(\<forall>k. \<not> isl (check_medicine_time due_world k demo_index))
   \<and> vectorstore (ss (at_page Upload alice_with_index)) = Some demo_index
   \<and> auto_check auto_checking
   \<and> auto_check_loop 2 due_world demo_index (at_page Upload alice_with_index) =
       (Running,
        \<lparr>db = alice_db, ss = alice_with_index,
         out = [Evaluate 0, Write ''Take Aspirin now'', Busy False, Say ''Take Aspirin now'',
                RunAndWait, Sleep 60,
                Evaluate 1, Write ''Take Aspirin now'', Busy False, Say ''Take Aspirin now'',
                RunAndWait, Sleep 60],
         calls = 2, page_var = Upload\<rparr>)
   \<and> fst (upload_checks 2 due_world auto_checking (at_page Upload alice_with_index)) \<noteq> Returned"
proof -
  have a: "\<forall>k. \<not> isl (check_medicine_time due_world k demo_index)"
    by (simp add: due_world_replies)
  have b: "vectorstore (ss (at_page Upload alice_with_index)) = Some demo_index"
    by (simp add: at_page_def alice_with_index_def)
  have c: "auto_check auto_checking"
    by (simp add: auto_checking_def)
  show ?thesis
    using a b c
      auto_check_loop_never_returns [of 2 due_world demo_index "at_page Upload alice_with_index"
        auto_checking]
    by (simp add: due_world_iteration at_page_def numeral_2_eq_2)
qed

text \<open>
  C5, at the input where it fails: automatic checking is selected and the hosted model
  refuses the first request. The loop should go on for ever, evaluating and sleeping; but
  its call of the evaluator lacks the \<^verbatim>\<open>try ... except\<close> that the button path has (the
  defect of C2), so the loop ends in its first iteration, by the exception, without
  having slept.
\<close>

theorem auto_check_loop_ends_on_exception:
  "fst (auto_check_loop 1 quota_world demo_index (at_page Upload alice_with_index))
     = Raised (LibraryError ''quota exceeded'')
   \<and> out (snd (auto_check_loop 1 quota_world demo_index (at_page Upload alice_with_index)))
     = [Evaluate 0]"
  by (simp add: auto_check_body_def quota_world_raises at_page_def Let_def)

end
